theory Spec2Isabelle
  imports Main "HOL-Library.Word"
begin

unbundle bit_operations_syntax

section \<open>Native memory\<close>

text \<open>
  The bridge of \<^verbatim>\<open>src/node/node_value.hpp\<close> moves bytes between buffers of the engine and
  buffers of the native library, so memory is explicit. It is a list of blocks, one per
  allocation; a pointer names a block and an offset into it. Allocation always succeeds
  and blocks are never freed. The field \<open>objects\<close> counts the engine objects created so
  far and gives each new one its identity.
\<close>

type_synonym byte = "8 word"

datatype pointer =
    Nullptr
  | Ptr nat nat \<comment> \<open>block, offset\<close>
  | Placeholder \<comment> \<open>the address of the local \<^verbatim>\<open>char placeholder\<close> of line 158\<close>

record memory =
  blocks :: "byte list list"
  objects :: nat

text \<open>
  Reading \<open>n\<close> bytes through a pointer. A null pointer cannot be read, not even for zero
  bytes; the placeholder is one uninitialised byte, so only the empty read is defined.
\<close>

definition load :: "memory \<Rightarrow> pointer \<Rightarrow> nat \<Rightarrow> byte list option" where
  "load mem p n =
     (case p of
        Nullptr \<Rightarrow> None
      | Placeholder \<Rightarrow> (if n = 0 then Some [] else None)
      | Ptr a off \<Rightarrow>
          (if a < length (blocks mem) \<and> off + n \<le> length (blocks mem ! a)
           then Some (take n (drop off (blocks mem ! a)))
           else None))"

definition store :: "memory \<Rightarrow> pointer \<Rightarrow> byte list \<Rightarrow> memory option" where
  "store mem p bs =
     (case p of
        Nullptr \<Rightarrow> None
      | Placeholder \<Rightarrow> None
      | Ptr a off \<Rightarrow>
          (if a < length (blocks mem) \<and> off + length bs \<le> length (blocks mem ! a)
           then Some (mem\<lparr>blocks := (blocks mem)
                  [a := take off (blocks mem ! a) @ bs @ drop (off + length bs) (blocks mem ! a)]\<rparr>)
           else None))"

fun ptr_add :: "pointer \<Rightarrow> nat \<Rightarrow> pointer" where
  "ptr_add (Ptr a off) k = Ptr a (off + k)"
| "ptr_add Nullptr k = Nullptr"
| "ptr_add Placeholder k = Placeholder"

text \<open>
  The outcomes that are not a normal return. The two exceptions carry the message of the
  throw statement; the spec calls them \<open>TypeMismatch\<close> (the \<^verbatim>\<open>std::runtime_error\<close> of
  line 181) and \<open>InvalidArgument\<close> (the \<^verbatim>\<open>std::invalid_argument\<close> of line 143).
\<close>

datatype error =
    runtime_error string
  | invalid_argument string
  | assertion_failed \<comment> \<open>a failed \<^verbatim>\<open>REALM_ASSERT\<close> terminates the process\<close>
  | memory_fault \<comment> \<open>undefined behaviour: a read or write outside an allocation\<close>

abbreviation TypeMismatch :: error where
  "TypeMismatch \<equiv>
     runtime_error ''Can only convert Buffer, ArrayBuffer, and ArrayBufferView objects to binary''"

abbreviation InvalidArgument :: error where
  "InvalidArgument \<equiv> invalid_argument ''Value not convertible to a number.''"

definition memcpy :: "memory \<Rightarrow> pointer \<Rightarrow> pointer \<Rightarrow> nat \<Rightarrow> error + memory" where
  "memcpy mem dst src n =
     (case load mem src n of
        None \<Rightarrow> Inl memory_fault
      | Some bs \<Rightarrow>
          (case store mem dst bs of
             None \<Rightarrow> Inl memory_fault
           | Some mem' \<Rightarrow> Inr mem'))"

text \<open>\<^verbatim>\<open>new char[n]\<close>: a fresh block, never null, also when \<open>n\<close> is zero.\<close>

definition new_char_array :: "memory \<Rightarrow> nat \<Rightarrow> memory \<times> pointer" where
  "new_char_array mem n =
     (mem\<lparr>blocks := blocks mem @ [replicate n 0]\<rparr>, Ptr (length (blocks mem)) 0)"

section \<open>Doubles\<close>

text \<open>
  A \<^verbatim>\<open>double\<close> is its IEEE 754 bit pattern: sign, eleven exponent bits, fifty-two
  fraction bits. No arithmetic on doubles is needed, only their classification.
\<close>

type_synonym double = "64 word"

definition exponent_bits :: "double \<Rightarrow> 64 word" where
  "exponent_bits d = drop_bit 52 d AND 0x7FF"

definition fraction_bits :: "double \<Rightarrow> 64 word" where
  "fraction_bits d = d AND 0xFFFFFFFFFFFFF"

definition isnan :: "double \<Rightarrow> bool" where
  "isnan d = (exponent_bits d = 0x7FF \<and> fraction_bits d \<noteq> 0)"

definition isfinite :: "double \<Rightarrow> bool" where
  "isfinite d = (exponent_bits d \<noteq> 0x7FF)"

definition NAN :: double where
  "NAN = 0x7FF8000000000000"

section \<open>The engine\<close>

text \<open>
  The types and functions of \<^verbatim>\<open>v8.h\<close>, \<^verbatim>\<open>nan.h\<close> and \<^verbatim>\<open>node_buffer.h\<close> that the bridge
  calls. They belong to the engine, not to this repository. A host value is an opaque
  reference into the heap of the engine; the model keeps of it what the bridge observes
  through these functions: its kind, and for the binary kinds where its bytes are.
\<close>

record array_buffer =
  ab_id :: nat
  backing_store :: pointer
  ab_byte_length :: nat

record array_buffer_view =
  view_buffer :: array_buffer
  view_byte_offset :: nat
  view_byte_length :: nat
  view_is_node_buffer :: bool \<comment> \<open>a \<^verbatim>\<open>Buffer\<close> of Node 4 and later is a \<^verbatim>\<open>Uint8Array\<close>\<close>

text \<open>
  What a non-empty handle \<^verbatim>\<open>v8::Local<v8::Value>\<close> refers to. Objects carry their identity.
  \<open>NodeBuffer\<close> is a \<^verbatim>\<open>Buffer\<close> that is not a typed array (Node before version 4): identity,
  data pointer, length.
\<close>

datatype v8_value =
    V8Undefined
  | V8Null
  | V8Boolean bool
  | V8Number double
  | V8String string
  | V8Symbol nat
  | V8Object nat
  | V8Array nat
  | V8Date nat
  | V8Function nat
  | V8ArrayBuffer (As_ArrayBuffer: array_buffer)
  | V8ArrayBufferView (As_ArrayBufferView: array_buffer_view)
  | NodeBuffer nat pointer nat

text \<open>An empty handle, \<^verbatim>\<open>v8::Local<T>()\<close>, is \<open>None\<close>.\<close>

type_synonym 'a Local = "'a option"

fun IsArray :: "v8_value \<Rightarrow> bool" where
  "IsArray (V8Array _) = True"
| "IsArray _ = False"

fun IsArrayBuffer :: "v8_value \<Rightarrow> bool" where
  "IsArrayBuffer (V8ArrayBuffer _) = True"
| "IsArrayBuffer _ = False"

fun IsArrayBufferView :: "v8_value \<Rightarrow> bool" where
  "IsArrayBufferView (V8ArrayBufferView _) = True"
| "IsArrayBufferView _ = False"

fun IsDate :: "v8_value \<Rightarrow> bool" where
  "IsDate (V8Date _) = True"
| "IsDate _ = False"

fun IsBoolean :: "v8_value \<Rightarrow> bool" where
  "IsBoolean (V8Boolean _) = True"
| "IsBoolean _ = False"

fun IsFunction :: "v8_value \<Rightarrow> bool" where
  "IsFunction (V8Function _) = True"
| "IsFunction _ = False"

fun IsNull :: "v8_value \<Rightarrow> bool" where
  "IsNull V8Null = True"
| "IsNull _ = False"

fun IsNumber :: "v8_value \<Rightarrow> bool" where
  "IsNumber (V8Number _) = True"
| "IsNumber _ = False"

fun IsObject :: "v8_value \<Rightarrow> bool" where
  "IsObject V8Undefined = False"
| "IsObject V8Null = False"
| "IsObject (V8Boolean _) = False"
| "IsObject (V8Number _) = False"
| "IsObject (V8String _) = False"
| "IsObject (V8Symbol _) = False"
| "IsObject _ = True"

fun IsString :: "v8_value \<Rightarrow> bool" where
  "IsString (V8String _) = True"
| "IsString _ = False"

fun IsUndefined :: "v8_value \<Rightarrow> bool" where
  "IsUndefined V8Undefined = True"
| "IsUndefined _ = False"

text \<open>\<^verbatim>\<open>node::Buffer::HasInstance\<close>, \<^verbatim>\<open>node::Buffer::Data\<close> and \<^verbatim>\<open>node::Buffer::Length\<close>.\<close>

fun Buffer_HasInstance :: "v8_value \<Rightarrow> bool" where
  "Buffer_HasInstance (NodeBuffer _ _ _) = True"
| "Buffer_HasInstance (V8ArrayBufferView view) = view_is_node_buffer view"
| "Buffer_HasInstance _ = False"

fun Buffer_Data :: "v8_value \<Rightarrow> pointer" where
  "Buffer_Data (NodeBuffer _ p _) = p"
| "Buffer_Data (V8ArrayBufferView view) =
     ptr_add (backing_store (view_buffer view)) (view_byte_offset view)"
| "Buffer_Data _ = Nullptr"

fun Buffer_Length :: "v8_value \<Rightarrow> nat" where
  "Buffer_Length (NodeBuffer _ _ n) = n"
| "Buffer_Length (V8ArrayBufferView view) = view_byte_length view"
| "Buffer_Length _ = 0"

text \<open>
  The coercions of the engine on the values that are not already of the target type. They
  run script code (\<^verbatim>\<open>valueOf\<close>, \<^verbatim>\<open>toString\<close>) and parse strings, so they are parameters
  of the model: the isolate supplies them. \<open>None\<close> is the empty \<^verbatim>\<open>Maybe\<close>, which the engine
  returns when the coercion threw.
\<close>

record v8_isolate =
  ToBoolean :: "v8_value \<Rightarrow> bool option"
  ToNumber :: "v8_value \<Rightarrow> double option"
  ToObject :: "v8_value \<Rightarrow> v8_value option"

definition FromMaybe :: "'a option \<Rightarrow> 'a \<Rightarrow> 'a" where
  "FromMaybe m default_value = (case m of None \<Rightarrow> default_value | Some x \<Rightarrow> x)"

text \<open>\<^verbatim>\<open>MaybeLocal<T>::FromMaybe\<close>: the handle, or the default handle when there is none.\<close>

definition MaybeLocal_FromMaybe :: "'a option \<Rightarrow> 'a Local \<Rightarrow> 'a Local" where
  "MaybeLocal_FromMaybe m default_value = (case m of None \<Rightarrow> default_value | Some x \<Rightarrow> Some x)"

text \<open>\<^verbatim>\<open>Nan::To<bool>\<close>, \<^verbatim>\<open>Nan::To<double>\<close>, \<^verbatim>\<open>Nan::To<v8::Object>\<close>.\<close>

definition Nan_To_bool :: "v8_isolate \<Rightarrow> v8_value \<Rightarrow> bool option" where
  "Nan_To_bool isolate val =
     (case val of V8Boolean b \<Rightarrow> Some b | _ \<Rightarrow> ToBoolean isolate val)"

definition Nan_To_double :: "v8_isolate \<Rightarrow> v8_value \<Rightarrow> double option" where
  "Nan_To_double isolate val =
     (case val of V8Number d \<Rightarrow> Some d | _ \<Rightarrow> ToNumber isolate val)"

definition Nan_To_Object :: "v8_isolate \<Rightarrow> v8_value \<Rightarrow> v8_value option" where
  "Nan_To_Object isolate val = (if IsObject val then Some val else ToObject isolate val)"

text \<open>\<^verbatim>\<open>Nan::New\<close> on a \<^verbatim>\<open>bool\<close> and on a \<^verbatim>\<open>double\<close>, \<^verbatim>\<open>Nan::Null\<close>, \<^verbatim>\<open>Nan::Undefined\<close>.\<close>

definition Nan_New_bool :: "bool \<Rightarrow> v8_value" where
  "Nan_New_bool b = V8Boolean b"

definition Nan_New_double :: "double \<Rightarrow> v8_value" where
  "Nan_New_double d = V8Number d"

text \<open>
  \<^verbatim>\<open>v8::ArrayBuffer::New(isolate, byte_length)\<close>: a new buffer object with a zeroed backing
  store of its own. The engine allocates no store for the length zero and leaves the data
  pointer null.
\<close>

definition ArrayBuffer_New :: "memory \<Rightarrow> nat \<Rightarrow> memory \<times> array_buffer" where
  "ArrayBuffer_New mem byte_length =
     (if byte_length = 0
      then (mem\<lparr>objects := Suc (objects mem)\<rparr>,
            \<lparr>ab_id = objects mem, backing_store = Nullptr, ab_byte_length = 0\<rparr>)
      else (case new_char_array mem byte_length of
              (mem', p) \<Rightarrow>
                (mem'\<lparr>objects := Suc (objects mem')\<rparr>,
                 \<lparr>ab_id = objects mem', backing_store = p, ab_byte_length = byte_length\<rparr>)))"

record Contents =
  Data :: pointer
  ByteLength :: nat

definition GetContents :: "array_buffer \<Rightarrow> Contents" where
  "GetContents buffer = \<lparr>Data = backing_store buffer, ByteLength = ab_byte_length buffer\<rparr>"

text \<open>
  \<^verbatim>\<open>v8::ArrayBufferView::CopyContents(dest, byte_length)\<close>: copies the bytes of the view, at
  most \<open>byte_length\<close> of them, and returns how many it copied.
\<close>

definition CopyContents ::
  "memory \<Rightarrow> array_buffer_view \<Rightarrow> pointer \<Rightarrow> nat \<Rightarrow> error + (memory \<times> nat)" where
  "CopyContents mem view dest byte_length =
     (let bytes_to_copy = min byte_length (view_byte_length view) in
      if bytes_to_copy \<noteq> 0
      then (case memcpy mem dest
                   (ptr_add (backing_store (view_buffer view)) (view_byte_offset view))
                   bytes_to_copy of
              Inl e \<Rightarrow> Inl e
            | Inr mem' \<Rightarrow> Inr (mem', bytes_to_copy))
      else Inr (mem, 0))"

text \<open>
  The engine keeps its buffers inside allocated memory: a buffer with a null store has
  length zero, any other store holds the whole length, and a view lies inside its buffer.
\<close>

definition wf_array_buffer :: "memory \<Rightarrow> array_buffer \<Rightarrow> bool" where
  "wf_array_buffer mem buffer =
     (if backing_store buffer = Nullptr then ab_byte_length buffer = 0
      else load mem (backing_store buffer) (ab_byte_length buffer) \<noteq> None)"

fun wf_value :: "memory \<Rightarrow> v8_value \<Rightarrow> bool" where
  "wf_value mem (V8ArrayBuffer buffer) = wf_array_buffer mem buffer"
| "wf_value mem (V8ArrayBufferView view) =
     (wf_array_buffer mem (view_buffer view) \<and>
      view_byte_offset view + view_byte_length view \<le> ab_byte_length (view_buffer view))"
| "wf_value mem (NodeBuffer _ p n) =
     (if p = Nullptr then n = 0 else load mem p n \<noteq> None)"
| "wf_value mem _ = True"

text \<open>The bytes a view shows: its logical contents.\<close>

definition view_contents :: "memory \<Rightarrow> array_buffer_view \<Rightarrow> byte list option" where
  "view_contents mem view =
     (if view_byte_length view = 0 then Some []
      else load mem (ptr_add (backing_store (view_buffer view)) (view_byte_offset view))
             (view_byte_length view))"

section \<open>Binary data of the native library\<close>

text \<open>\<^verbatim>\<open>realm::BinaryData\<close>: a pointer and a size, owning nothing.\<close>

record BinaryData =
  bd_data :: pointer
  bd_size :: nat

text \<open>The bytes a \<^verbatim>\<open>BinaryData\<close> denotes; the one of size zero denotes none, whatever its pointer.\<close>

definition bd_bytes :: "memory \<Rightarrow> BinaryData \<Rightarrow> byte list option" where
  "bd_bytes mem data = (if bd_size data = 0 then Some [] else load mem (bd_data data) (bd_size data))"

text \<open>
  Modelled from the spec: \<^verbatim>\<open>realm::OwnedData\<close> and its subclass \<^verbatim>\<open>realm::OwnedBinaryData\<close>,
  which \<open>to_binary\<close> returns, are declared outside \<^verbatim>\<open>src/\<close>. The spec (section 3)
  describes the owned copy as a bridge-allocated buffer holding a duplicate of the source
  bytes, valid independent of the source's lifetime: a pointer to a buffer of its own, and
  a size.
\<close>

record OwnedData =
  m_data :: pointer
  m_size :: nat

text \<open>
  Modelled from the spec: the constructor of \<^verbatim>\<open>OwnedData\<close> from a pointer and a size, which
  is declared outside \<^verbatim>\<open>src/\<close>. It duplicates the source bytes into a newly allocated
  buffer. From a null pointer it constructs the null value; this is why line 155 speaks of
  making a non-null \<^verbatim>\<open>OwnedBinaryData\<close> even when the data pointer is null.
\<close>

definition OwnedData_copying :: "memory \<Rightarrow> pointer \<Rightarrow> nat \<Rightarrow> error + (memory \<times> OwnedData)" where
  "OwnedData_copying mem data_to_copy data_size =
     (if data_to_copy = Nullptr then Inr (mem, \<lparr>m_data = Nullptr, m_size = data_size\<rparr>)
      else (case new_char_array mem data_size of
              (mem', p) \<Rightarrow>
                (case memcpy mem' p data_to_copy data_size of
                   Inl e \<Rightarrow> Inl e
                 | Inr mem'' \<Rightarrow> Inr (mem'', \<lparr>m_data = p, m_size = data_size\<rparr>))))"

text \<open>
  Modelled from the spec: the constructor of \<^verbatim>\<open>OwnedData\<close> from a \<^verbatim>\<open>unique_ptr\<close> and a size
  (line 173), which is declared outside \<^verbatim>\<open>src/\<close>. The value takes the buffer over.
\<close>

definition OwnedData_adopting :: "pointer \<Rightarrow> nat \<Rightarrow> OwnedData" where
  "OwnedData_adopting unique_data data_size = \<lparr>m_data = unique_data, m_size = data_size\<rparr>"

text \<open>
  Modelled from the spec: the copy constructor of \<^verbatim>\<open>OwnedData\<close>, which the return statement
  of line 175 calls and which is declared outside \<^verbatim>\<open>src/\<close>. The copy is an owned copy in
  turn: it duplicates the bytes of the other value.
\<close>

definition OwnedData_copy :: "memory \<Rightarrow> OwnedData \<Rightarrow> error + (memory \<times> OwnedData)" where
  "OwnedData_copy mem other = OwnedData_copying mem (m_data other) (m_size other)"

text \<open>The bytes an owned value holds.\<close>

definition owned_bytes :: "memory \<Rightarrow> OwnedData \<Rightarrow> byte list option" where
  "owned_bytes mem d = load mem (m_data d) (m_size d)"

section \<open>The value bridge of \<^verbatim>\<open>node_value.hpp\<close>\<close>

subsection \<open>Classification\<close>

definition is_array :: "v8_isolate \<Rightarrow> v8_value \<Rightarrow> bool" where
  "is_array isolate value = IsArray value"

definition is_array_buffer :: "v8_isolate \<Rightarrow> v8_value \<Rightarrow> bool" where
  "is_array_buffer isolate value = IsArrayBuffer value"

definition is_array_buffer_view :: "v8_isolate \<Rightarrow> v8_value \<Rightarrow> bool" where
  "is_array_buffer_view isolate value = IsArrayBufferView value"

definition is_date :: "v8_isolate \<Rightarrow> v8_value \<Rightarrow> bool" where
  "is_date isolate value = IsDate value"

definition is_boolean :: "v8_isolate \<Rightarrow> v8_value \<Rightarrow> bool" where
  "is_boolean isolate value = IsBoolean value"

definition is_constructor :: "v8_isolate \<Rightarrow> v8_value \<Rightarrow> bool" where
  "is_constructor isolate value = IsFunction value"

definition is_function :: "v8_isolate \<Rightarrow> v8_value \<Rightarrow> bool" where
  "is_function isolate value = IsFunction value"

definition is_null :: "v8_isolate \<Rightarrow> v8_value \<Rightarrow> bool" where
  "is_null isolate value = IsNull value"

definition is_number :: "v8_isolate \<Rightarrow> v8_value \<Rightarrow> bool" where
  "is_number isolate value = IsNumber value"

definition is_object :: "v8_isolate \<Rightarrow> v8_value \<Rightarrow> bool" where
  "is_object isolate value = IsObject value"

definition is_string :: "v8_isolate \<Rightarrow> v8_value \<Rightarrow> bool" where
  "is_string isolate value = IsString value"

definition is_undefined :: "v8_isolate \<Rightarrow> v8_value \<Rightarrow> bool" where
  "is_undefined isolate value = IsUndefined value"

definition is_binary :: "v8_isolate \<Rightarrow> v8_value \<Rightarrow> bool" where
  "is_binary isolate value =
     (is_array_buffer isolate value \<or> is_array_buffer_view isolate value
      \<or> Buffer_HasInstance value)"

definition is_valid :: "v8_value Local \<Rightarrow> bool" where
  "is_valid value = (value \<noteq> None)"

subsection \<open>Construction\<close>

definition from_boolean :: "v8_isolate \<Rightarrow> bool \<Rightarrow> v8_value" where
  "from_boolean isolate boolean = Nan_New_bool boolean"

definition from_null :: "v8_isolate \<Rightarrow> v8_value" where
  "from_null isolate = V8Null"

definition from_number :: "v8_isolate \<Rightarrow> double \<Rightarrow> v8_value" where
  "from_number isolate number = Nan_New_double number"

definition from_binary :: "v8_isolate \<Rightarrow> memory \<Rightarrow> BinaryData \<Rightarrow> error + (memory \<times> v8_value)" where
  "from_binary isolate mem data =
     (case ArrayBuffer_New mem (bd_size data) of
        (mem', buffer) \<Rightarrow>
          (let contents = GetContents buffer in
           if bd_size data \<noteq> 0
           then (case memcpy mem' (Data contents) (bd_data data) (bd_size data) of
                   Inl e \<Rightarrow> Inl e
                 | Inr mem'' \<Rightarrow> Inr (mem'', V8ArrayBuffer buffer))
           else Inr (mem', V8ArrayBuffer buffer)))"

definition from_undefined :: "v8_isolate \<Rightarrow> v8_value" where
  "from_undefined isolate = V8Undefined"

subsection \<open>Extraction\<close>

definition to_boolean :: "v8_isolate \<Rightarrow> v8_value \<Rightarrow> bool" where
  "to_boolean isolate value = FromMaybe (Nan_To_bool isolate value) False"

definition to_number :: "v8_isolate \<Rightarrow> v8_value \<Rightarrow> error + double" where
  "to_number isolate value =
     (let number = FromMaybe (Nan_To_double isolate value) NAN in
      if isnan number then Inl InvalidArgument else Inr number)"

text \<open>The lambda of lines 156 to 160.\<close>

definition make_owned_binary_data ::
  "memory \<Rightarrow> pointer \<Rightarrow> nat \<Rightarrow> error + (memory \<times> OwnedData)" where
  "make_owned_binary_data mem data len =
     (if \<not> (data \<noteq> Nullptr \<or> len = 0) then Inl assertion_failed
      else OwnedData_copying mem (if data \<noteq> Nullptr then data else Placeholder) len)"

definition to_binary :: "v8_isolate \<Rightarrow> memory \<Rightarrow> v8_value \<Rightarrow> error + (memory \<times> OwnedData)" where
  "to_binary isolate mem value =
     (if is_array_buffer isolate value then
        (let array_buffer = As_ArrayBuffer value;
             contents = GetContents array_buffer
         in make_owned_binary_data mem (Data contents) (ByteLength contents))
      else if is_array_buffer_view isolate value then
        (let array_buffer_view = As_ArrayBufferView value in
         case new_char_array mem (view_byte_length array_buffer_view) of
           (mem', data) \<Rightarrow>
             (case CopyContents mem' array_buffer_view data
                     (view_byte_length array_buffer_view) of
                Inl e \<Rightarrow> Inl e
              | Inr (mem'', bytes) \<Rightarrow>
                  (let owned_data = OwnedData_adopting data bytes
                   in OwnedData_copy mem'' owned_data)))
      else if Buffer_HasInstance value then
        make_owned_binary_data mem (Buffer_Data value) (Buffer_Length value)
      else Inl TypeMismatch)"

definition to_object :: "v8_isolate \<Rightarrow> v8_value \<Rightarrow> v8_value Local" where
  "to_object isolate value = MaybeLocal_FromMaybe (Nan_To_Object isolate value) None"

definition to_array :: "v8_isolate \<Rightarrow> v8_value \<Rightarrow> v8_value Local" where
  "to_array isolate value = to_object isolate value"

definition to_date :: "v8_isolate \<Rightarrow> v8_value \<Rightarrow> v8_value Local" where
  "to_date isolate value = to_object isolate value"

definition to_function :: "v8_isolate \<Rightarrow> v8_value \<Rightarrow> v8_value Local" where
  "to_function isolate value = (if IsFunction value then Some value else None)"

definition to_constructor :: "v8_isolate \<Rightarrow> v8_value \<Rightarrow> v8_value Local" where
  "to_constructor isolate value = to_function isolate value"

section \<open>A concrete isolate and a concrete memory\<close>

text \<open>
  An isolate with the coercions of ECMAScript on \<^verbatim>\<open>undefined\<close>, \<^verbatim>\<open>null\<close> and the booleans,
  which signals a failure on every other value; and an isolate whose coercions always
  signal a failure.
\<close>

definition sample_isolate :: v8_isolate where
  "sample_isolate =
     \<lparr>ToBoolean = (\<lambda>v. case v of V8Undefined \<Rightarrow> Some False | V8Null \<Rightarrow> Some False | _ \<Rightarrow> None),
      ToNumber = (\<lambda>v. case v of
                         V8Undefined \<Rightarrow> Some NAN
                       | V8Null \<Rightarrow> Some 0
                       | V8Boolean b \<Rightarrow> Some (if b then 0x3FF0000000000000 else 0)
                       | _ \<Rightarrow> None),
      ToObject = (\<lambda>v. None)\<rparr>"

definition failing_isolate :: v8_isolate where
  "failing_isolate =
     \<lparr>ToBoolean = (\<lambda>v. None), ToNumber = (\<lambda>v. None), ToObject = (\<lambda>v. None)\<rparr>"

text \<open>
  A memory holding one buffer of six bytes, the buffer object over it, and a view of the
  three bytes \<open>1, 2, 3\<close> at offset two of that buffer.
\<close>

definition sample_memory :: memory where
  "sample_memory = \<lparr>blocks = [[9, 9, 1, 2, 3, 9]], objects = 1\<rparr>"

definition sample_buffer :: array_buffer where
  "sample_buffer = \<lparr>ab_id = 0, backing_store = Ptr 0 0, ab_byte_length = 6\<rparr>"

definition sample_view :: array_buffer_view where
  "sample_view =
     \<lparr>view_buffer = sample_buffer, view_byte_offset = 2, view_byte_length = 3,
      view_is_node_buffer = False\<rparr>"

definition empty_buffer :: array_buffer where
  "empty_buffer = \<lparr>ab_id = 0, backing_store = Nullptr, ab_byte_length = 0\<rparr>"

definition empty_view :: array_buffer_view where
  "empty_view =
     \<lparr>view_buffer = empty_buffer, view_byte_offset = 0, view_byte_length = 0,
      view_is_node_buffer = False\<rparr>"

section \<open>Memory and the owned copy\<close>

lemma load_length: "load mem p n = Some bs \<Longrightarrow> length bs = n"
  by (auto simp: load_def split: pointer.splits if_splits)

lemma OwnedData_copying_ok:
  assumes "p \<noteq> Nullptr" and "load mem p n = Some bs"
  shows "OwnedData_copying mem p n =
           Inr (mem\<lparr>blocks := blocks mem @ [bs]\<rparr>, \<lparr>m_data = Ptr (length (blocks mem)) 0, m_size = n\<rparr>)"
  using assms load_length[OF assms(2)]
  by (auto simp: OwnedData_copying_def new_char_array_def memcpy_def load_def store_def nth_append
      split: pointer.splits if_splits)

lemma OwnedData_copying_non_null:
  "p \<noteq> Nullptr \<Longrightarrow> OwnedData_copying mem p n = Inr (mem', r) \<Longrightarrow> m_data r \<noteq> Nullptr"
  by (auto simp: OwnedData_copying_def new_char_array_def split: sum.splits)

lemma OwnedData_copying_error:
  "OwnedData_copying mem p n = Inl e \<Longrightarrow> e = memory_fault"
  by (auto simp: OwnedData_copying_def new_char_array_def memcpy_def
      split: if_splits sum.splits option.splits)

lemma make_owned_binary_data_null:
  "make_owned_binary_data mem Nullptr 0 =
     Inr (mem\<lparr>blocks := blocks mem @ [[]]\<rparr>, \<lparr>m_data = Ptr (length (blocks mem)) 0, m_size = 0\<rparr>)"
proof -
  have "load mem Placeholder 0 = Some []" by (simp add: load_def)
  then show ?thesis
    by (simp add: make_owned_binary_data_def OwnedData_copying_ok)
qed

lemma make_owned_binary_data_ok:
  "data \<noteq> Nullptr \<Longrightarrow> load mem data len = Some bs \<Longrightarrow>
   make_owned_binary_data mem data len =
     Inr (mem\<lparr>blocks := blocks mem @ [bs]\<rparr>, \<lparr>m_data = Ptr (length (blocks mem)) 0, m_size = len\<rparr>)"
  by (simp add: make_owned_binary_data_def OwnedData_copying_ok)

lemma make_owned_binary_data_non_null:
  "make_owned_binary_data mem data len = Inr (mem', r) \<Longrightarrow> m_data r \<noteq> Nullptr"
  by (auto simp: make_owned_binary_data_def split: if_splits
      dest: OwnedData_copying_non_null [rotated])

lemma make_owned_binary_data_error:
  "make_owned_binary_data mem data len = Inl e \<Longrightarrow> e = assertion_failed \<or> e = memory_fault"
  by (auto simp: make_owned_binary_data_def split: if_splits dest: OwnedData_copying_error)

lemma CopyContents_error:
  "CopyContents mem view dest n = Inl e \<Longrightarrow> e = memory_fault"
  by (auto simp: CopyContents_def Let_def memcpy_def split: if_splits sum.splits option.splits)

lemma CopyContents_ok:
  assumes bs: "view_contents mem view = Some bs"
  shows "CopyContents (mem\<lparr>blocks := blocks mem @ [replicate (view_byte_length view) 0]\<rparr>) view
           (Ptr (length (blocks mem)) 0) (view_byte_length view) =
         Inr (mem\<lparr>blocks := blocks mem @ [bs]\<rparr>, view_byte_length view)"
proof (cases "view_byte_length view = 0")
  case True
  then have "bs = []" using bs by (simp add: view_contents_def)
  with True show ?thesis by (simp add: CopyContents_def)
next
  case False
  then have ld: "load mem (ptr_add (backing_store (view_buffer view)) (view_byte_offset view))
                   (view_byte_length view) = Some bs"
    using bs by (simp add: view_contents_def)
  then have len: "length bs = view_byte_length view" by (rule load_length)
  from ld False obtain b off
    where p: "ptr_add (backing_store (view_buffer view)) (view_byte_offset view) = Ptr b off"
    by (cases "ptr_add (backing_store (view_buffer view)) (view_byte_offset view)")
      (auto simp: load_def)
  from ld p have b: "b < length (blocks mem)"
    and fit: "off + view_byte_length view \<le> length (blocks mem ! b)"
    and bs_eq: "take (view_byte_length view) (drop off (blocks mem ! b)) = bs"
    by (auto simp: load_def split: if_splits)
  show ?thesis
    using False p b fit len bs_eq
    by (simp add: CopyContents_def memcpy_def load_def store_def nth_append)
qed

lemma to_binary_view_ok:
  assumes bs: "view_contents mem view = Some bs"
  shows "to_binary isolate mem (V8ArrayBufferView view) =
           Inr (mem\<lparr>blocks := blocks mem @ [bs, bs]\<rparr>,
                \<lparr>m_data = Ptr (Suc (length (blocks mem))) 0, m_size = view_byte_length view\<rparr>)"
proof -
  have len: "length bs = view_byte_length view"
    using bs by (auto simp: view_contents_def dest: load_length split: if_splits)
  have ld: "load (mem\<lparr>blocks := blocks mem @ [bs]\<rparr>) (Ptr (length (blocks mem)) 0)
              (view_byte_length view) = Some bs"
    using len by (simp add: load_def)
  show ?thesis
    using CopyContents_ok [OF bs] OwnedData_copying_ok [OF _ ld]
    by (simp add: to_binary_def is_array_buffer_def is_array_buffer_view_def new_char_array_def
        OwnedData_adopting_def OwnedData_copy_def)
qed

lemma wf_view_contents:
  assumes "wf_value mem (V8ArrayBufferView view)"
  shows "\<exists>bs. view_contents mem view = Some bs"
proof (cases "view_byte_length view = 0")
  case True
  then show ?thesis by (simp add: view_contents_def)
next
  case False
  with assms show ?thesis
    by (cases "backing_store (view_buffer view)")
      (auto simp: view_contents_def wf_array_buffer_def load_def split: if_splits)
qed

section \<open>Classification of doubles\<close>

lemma isnan_NAN: "isnan NAN"
  by (simp add: isnan_def NAN_def exponent_bits_def fraction_bits_def)

lemma isfinite_not_isnan: "isfinite d \<Longrightarrow> \<not> isnan d"
  by (simp add: isnan_def isfinite_def)

section \<open>Binary extraction and construction\<close>

lemma to_binary_not_binary:
  "\<not> is_binary isolate value \<Longrightarrow> to_binary isolate mem value = Inl TypeMismatch"
  by (simp add: is_binary_def to_binary_def)

lemma to_binary_error:
  assumes "is_binary isolate value" and "to_binary isolate mem value = Inl e"
  shows "e = assertion_failed \<or> e = memory_fault"
  using assms
  by (auto simp: is_binary_def to_binary_def Let_def OwnedData_copy_def
      split: if_splits prod.splits sum.splits
      dest: make_owned_binary_data_error CopyContents_error OwnedData_copying_error)

lemma to_binary_wf_ok:
  assumes "wf_value mem value" and "is_binary isolate value"
  shows "\<exists>mem' r. to_binary isolate mem value = Inr (mem', r)"
proof (cases "value")
  case (V8ArrayBuffer buffer)
  show ?thesis
  proof (cases "backing_store buffer = Nullptr")
    case True
    with assms(1) V8ArrayBuffer show ?thesis
      by (simp add: to_binary_def is_array_buffer_def GetContents_def wf_array_buffer_def
          make_owned_binary_data_null)
  next
    case False
    with assms(1) V8ArrayBuffer obtain bs
      where "load mem (backing_store buffer) (ab_byte_length buffer) = Some bs"
      by (auto simp: wf_array_buffer_def)
    with False V8ArrayBuffer show ?thesis
      by (simp add: to_binary_def is_array_buffer_def GetContents_def make_owned_binary_data_ok)
  qed
next
  case (V8ArrayBufferView view)
  with assms(1) wf_view_contents obtain bs where "view_contents mem view = Some bs"
    by blast
  with V8ArrayBufferView show ?thesis
    by (simp add: to_binary_view_ok)
next
  case (NodeBuffer i p n)
  show ?thesis
  proof (cases "p = Nullptr")
    case True
    with assms(1) NodeBuffer show ?thesis
      by (simp add: to_binary_def is_array_buffer_def is_array_buffer_view_def
          make_owned_binary_data_null)
  next
    case False
    with assms(1) NodeBuffer obtain bs where "load mem p n = Some bs"
      by auto
    with False NodeBuffer show ?thesis
      by (simp add: to_binary_def is_array_buffer_def is_array_buffer_view_def
          make_owned_binary_data_ok)
  qed
qed (use assms(2) in \<open>simp_all add: is_binary_def is_array_buffer_def is_array_buffer_view_def\<close>)

lemma to_binary_result_non_null:
  assumes "to_binary isolate mem value = Inr (mem', r)"
  shows "m_data r \<noteq> Nullptr"
  using assms
  by (auto simp: to_binary_def Let_def OwnedData_copy_def OwnedData_adopting_def new_char_array_def
      split: if_splits prod.splits sum.splits
      dest: make_owned_binary_data_non_null OwnedData_copying_non_null [rotated])

lemma from_binary_zero:
  "bd_size data = 0 \<Longrightarrow>
   from_binary isolate mem data =
     Inr (mem\<lparr>objects := Suc (objects mem)\<rparr>,
          V8ArrayBuffer \<lparr>ab_id = objects mem, backing_store = Nullptr, ab_byte_length = 0\<rparr>)"
  by (simp add: from_binary_def ArrayBuffer_New_def)

lemma from_binary_ok:
  assumes nz: "bd_size data \<noteq> 0" and ld: "load mem (bd_data data) (bd_size data) = Some bs"
  shows "from_binary isolate mem data =
     Inr (mem\<lparr>blocks := blocks mem @ [bs], objects := Suc (objects mem)\<rparr>,
          V8ArrayBuffer \<lparr>ab_id = objects mem, backing_store = Ptr (length (blocks mem)) 0,
                         ab_byte_length = bd_size data\<rparr>)"
proof -
  have len: "length bs = bd_size data" using ld by (rule load_length)
  from ld nz obtain b off where p: "bd_data data = Ptr b off"
    by (cases "bd_data data") (auto simp: load_def)
  from ld p have "b < length (blocks mem)"
    and "off + bd_size data \<le> length (blocks mem ! b)"
    and "take (bd_size data) (drop off (blocks mem ! b)) = bs"
    by (auto simp: load_def split: if_splits)
  with nz p len show ?thesis
    by (simp add: from_binary_def ArrayBuffer_New_def new_char_array_def GetContents_def
        memcpy_def load_def store_def nth_append)
qed

lemma from_binary_fault:
  "bd_size data \<noteq> 0 \<Longrightarrow> bd_data data = Nullptr \<Longrightarrow>
   from_binary isolate mem data = Inl memory_fault"
  by (simp add: from_binary_def ArrayBuffer_New_def new_char_array_def GetContents_def
      memcpy_def load_def)

section \<open>Properties of the bridge\<close>

text \<open>
  C1. A value that is none of the three binary representations (array buffer, array
  buffer view, Node buffer) makes \<open>to_binary\<close> throw the \<open>TypeMismatch\<close> error, and
  \<open>to_binary\<close> throws it for no other value: it throws exactly when \<open>is_binary\<close> is false.
  On the values the engine can hold, whose buffers lie inside allocated memory, no other
  failure occurs either, so there \<open>to_binary\<close> fails exactly when \<open>is_binary\<close> is false.
\<close>

theorem to_binary_TypeMismatch_iff:
  "(to_binary isolate mem value = Inl TypeMismatch \<longleftrightarrow> \<not> is_binary isolate value) \<and>
   (wf_value mem value \<longrightarrow>
      ((\<exists>e. to_binary isolate mem value = Inl e) \<longleftrightarrow> \<not> is_binary isolate value))"
proof (intro conjI impI iffI)
  assume "to_binary isolate mem value = Inl TypeMismatch"
  then show "\<not> is_binary isolate value"
    using to_binary_error [of isolate "value" mem TypeMismatch] by auto
next
  assume "\<not> is_binary isolate value"
  then show "to_binary isolate mem value = Inl TypeMismatch"
    by (rule to_binary_not_binary)
next
  assume "wf_value mem value" and "\<exists>e. to_binary isolate mem value = Inl e"
  then show "\<not> is_binary isolate value"
    using to_binary_wf_ok [of mem "value" isolate] by auto
next
  assume "\<not> is_binary isolate value"
  then show "\<exists>e. to_binary isolate mem value = Inl e"
    using to_binary_not_binary by blast
qed

theorem to_binary_TypeMismatch_iff_witness:
  "wf_value sample_memory (V8ArrayBufferView sample_view) \<and>
   is_binary sample_isolate (V8ArrayBufferView sample_view) \<and>
   \<not> (\<exists>e. to_binary sample_isolate sample_memory (V8ArrayBufferView sample_view) = Inl e) \<and>
   wf_value sample_memory (V8String ''abc'') \<and>
   \<not> is_binary sample_isolate (V8String ''abc'') \<and>
   to_binary sample_isolate sample_memory (V8String ''abc'') = Inl TypeMismatch"
proof -
  have wf: "wf_value sample_memory (V8ArrayBufferView sample_view)"
    by (simp add: wf_array_buffer_def sample_view_def sample_buffer_def sample_memory_def load_def)
  have b: "is_binary sample_isolate (V8ArrayBufferView sample_view)"
    by (simp add: is_binary_def is_array_buffer_view_def)
  have nb: "\<not> is_binary sample_isolate (V8String ''abc'')"
    by (simp add: is_binary_def is_array_buffer_def is_array_buffer_view_def)
  show ?thesis
    using wf b nb
      to_binary_TypeMismatch_iff [of sample_isolate sample_memory "V8ArrayBufferView sample_view"]
      to_binary_TypeMismatch_iff [of sample_isolate sample_memory "V8String ''abc''"]
    by simp
qed

text \<open>
  C2. For every byte sequence \<open>v\<close>, the empty one included, that a \<^verbatim>\<open>BinaryData\<close> denotes in
  memory, \<open>from_binary\<close> succeeds, \<open>to_binary\<close> on its result succeeds, the bytes of the
  owned result are \<open>v\<close>, and the pointer of the result is not null.
\<close>

theorem from_binary_to_binary:
  assumes "bd_bytes mem data = Some v"
  shows "\<exists>mem1 value mem2 r.
           from_binary isolate mem data = Inr (mem1, value) \<and>
           to_binary isolate mem1 value = Inr (mem2, r) \<and>
           owned_bytes mem2 r = Some v \<and> m_size r = length v \<and> m_data r \<noteq> Nullptr"
proof (cases "bd_size data = 0")
  case True
  then have v: "v = []" using assms by (simp add: bd_bytes_def)
  show ?thesis
    using True v
    by (simp add: from_binary_zero to_binary_def is_array_buffer_def GetContents_def
        make_owned_binary_data_null owned_bytes_def load_def)
next
  case False
  then have ld: "load mem (bd_data data) (bd_size data) = Some v"
    using assms by (simp add: bd_bytes_def)
  then have len: "length v = bd_size data" by (rule load_length)
  let ?mem1 = "mem\<lparr>blocks := blocks mem @ [v], objects := Suc (objects mem)\<rparr>"
  have ld1: "load ?mem1 (Ptr (length (blocks mem)) 0) (bd_size data) = Some v"
    using len by (simp add: load_def)
  show ?thesis
    using len make_owned_binary_data_ok [OF _ ld1]
    by (simp add: from_binary_ok [OF False ld] to_binary_def is_array_buffer_def GetContents_def
        owned_bytes_def load_def nth_append)
qed

theorem from_binary_to_binary_witness:
  "bd_bytes sample_memory \<lparr>bd_data = Ptr 0 2, bd_size = 3\<rparr> = Some [1, 2, 3] \<and>
   (\<exists>mem1 value mem2 r.
      from_binary sample_isolate sample_memory \<lparr>bd_data = Ptr 0 2, bd_size = 3\<rparr> = Inr (mem1, value) \<and>
      to_binary sample_isolate mem1 value = Inr (mem2, r) \<and>
      owned_bytes mem2 r = Some [1, 2, 3] \<and> m_size r = 3 \<and> m_data r \<noteq> Nullptr) \<and>
   bd_bytes sample_memory \<lparr>bd_data = Nullptr, bd_size = 0\<rparr> = Some [] \<and>
   (\<exists>mem1 value mem2 r.
      from_binary sample_isolate sample_memory \<lparr>bd_data = Nullptr, bd_size = 0\<rparr> = Inr (mem1, value) \<and>
      to_binary sample_isolate mem1 value = Inr (mem2, r) \<and>
      owned_bytes mem2 r = Some [] \<and> m_size r = 0 \<and> m_data r \<noteq> Nullptr)"
proof -
  have full: "bd_bytes sample_memory \<lparr>bd_data = Ptr 0 2, bd_size = 3\<rparr> = Some [1, 2, 3]"
    by (simp add: bd_bytes_def load_def sample_memory_def)
  have none: "bd_bytes sample_memory \<lparr>bd_data = Nullptr, bd_size = 0\<rparr> = Some []"
    by (simp add: bd_bytes_def)
  show ?thesis
    using full none
      from_binary_to_binary [OF full, of sample_isolate]
      from_binary_to_binary [OF none, of sample_isolate]
    by (simp add: numeral_3_eq_3)
qed

text \<open>
  C3. \<open>to_number\<close> applies the numeric coercion of the engine, where a coercion on which
  the engine signals a failure counts as \<open>NaN\<close> (line 141). It fails, with \<open>InvalidArgument\<close>,
  exactly when that result is a NaN; otherwise it returns the coerced double. A value that
  is the number NaN and a value that is not a number and coerces to NaN fail alike.
\<close>

theorem to_number_InvalidArgument_iff:
  "(to_number isolate value = Inl InvalidArgument \<longleftrightarrow>
      isnan (FromMaybe (Nan_To_double isolate value) NAN)) \<and>
   ((\<exists>e. to_number isolate value = Inl e) \<longleftrightarrow>
      isnan (FromMaybe (Nan_To_double isolate value) NAN)) \<and>
   (\<not> isnan (FromMaybe (Nan_To_double isolate value) NAN) \<longrightarrow>
      to_number isolate value = Inr (FromMaybe (Nan_To_double isolate value) NAN)) \<and>
   (isnan d \<longrightarrow> to_number isolate (V8Number d) = Inl InvalidArgument) \<and>
   (isnan d \<and> \<not> IsNumber value \<and> isnan (FromMaybe (ToNumber isolate value) NAN) \<longrightarrow>
      to_number isolate value = to_number isolate (V8Number d))"
  using isnan_NAN
  by (cases "value") (auto simp: to_number_def Let_def FromMaybe_def Nan_To_double_def)

theorem to_number_InvalidArgument_iff_witness:
  "to_number sample_isolate (V8Number NAN) = Inl InvalidArgument \<and>
   to_number sample_isolate V8Undefined = Inl InvalidArgument \<and>
   to_number sample_isolate (V8Symbol 0) = Inl InvalidArgument \<and>
   to_number sample_isolate (V8Boolean True) = Inr 0x3FF0000000000000"
proof -
  have u: "FromMaybe (Nan_To_double sample_isolate V8Undefined) NAN = NAN"
    by (simp add: FromMaybe_def Nan_To_double_def sample_isolate_def)
  have s: "FromMaybe (Nan_To_double sample_isolate (V8Symbol 0)) NAN = NAN"
    by (simp add: FromMaybe_def Nan_To_double_def sample_isolate_def)
  have t: "FromMaybe (Nan_To_double sample_isolate (V8Boolean True)) NAN = 0x3FF0000000000000"
    by (simp add: FromMaybe_def Nan_To_double_def sample_isolate_def)
  have f: "\<not> isnan 0x3FF0000000000000"
    by (simp add: isnan_def exponent_bits_def)
  show ?thesis
    using u s t f isnan_NAN
      to_number_InvalidArgument_iff [of sample_isolate V8Undefined NAN]
      to_number_InvalidArgument_iff [of sample_isolate "V8Symbol 0" NAN]
      to_number_InvalidArgument_iff [of sample_isolate "V8Boolean True" NAN]
    by simp
qed

text \<open>
  C4. For every finite double \<open>d\<close>, \<open>to_number\<close> of \<open>from_number d\<close> returns \<open>d\<close>; for
  NaN it fails with \<open>InvalidArgument\<close>. \<open>from_number\<close> validates nothing: it returns a
  number value for every double.
\<close>

theorem from_number_to_number:
  "(isfinite d \<longrightarrow> to_number isolate (from_number isolate d) = Inr d) \<and>
   to_number isolate (from_number isolate NAN) = Inl InvalidArgument \<and>
   is_number isolate (from_number isolate d)"
  using isnan_NAN isfinite_not_isnan [of d]
  by (auto simp: to_number_def Let_def FromMaybe_def Nan_To_double_def from_number_def
      Nan_New_double_def is_number_def)

theorem from_number_to_number_witness:
  "isfinite 0x3FF0000000000000 \<and>
   to_number sample_isolate (from_number sample_isolate 0x3FF0000000000000) =
     Inr 0x3FF0000000000000"
proof -
  have f: "isfinite 0x3FF0000000000000"
    by (simp add: isfinite_def exponent_bits_def)
  show ?thesis
    using f from_number_to_number [of "0x3FF0000000000000" sample_isolate] by simp
qed

text \<open>
  C5. On a buffer view the engine can hold, \<open>to_binary\<close> returns an owned copy: a newly
  allocated buffer, of the byte length of the view, holding the contents of the view; the
  bytes of the result stay what they are when the backing buffer of the view is written
  afterwards.
\<close>

theorem to_binary_view_owned_copy:
  assumes wf: "wf_value mem (V8ArrayBufferView view)"
  shows "\<exists>mem' r bs.
           to_binary isolate mem (V8ArrayBufferView view) = Inr (mem', r) \<and>
           view_contents mem view = Some bs \<and>
           m_size r = view_byte_length view \<and>
           (\<exists>a. m_data r = Ptr a 0 \<and> length (blocks mem) \<le> a \<and> a < length (blocks mem') \<and>
                length (blocks mem' ! a) = view_byte_length view) \<and>
           owned_bytes mem' r = Some bs \<and>
           (\<forall>k new_bytes mem''.
              store mem' (ptr_add (backing_store (view_buffer view)) k) new_bytes = Some mem''
              \<longrightarrow> owned_bytes mem'' r = Some bs)"
proof -
  from wf wf_view_contents obtain bs where bs: "view_contents mem view = Some bs"
    by blast
  have len: "length bs = view_byte_length view"
    using bs by (auto simp: view_contents_def dest: load_length split: if_splits)
  let ?mem' = "mem\<lparr>blocks := blocks mem @ [bs, bs]\<rparr>"
  let ?r = "\<lparr>m_data = Ptr (Suc (length (blocks mem))) 0, m_size = view_byte_length view\<rparr>"
  have run: "to_binary isolate mem (V8ArrayBufferView view) = Inr (?mem', ?r)"
    using bs by (rule to_binary_view_ok)
  have owned: "owned_bytes ?mem' ?r = Some bs"
    using len by (simp add: owned_bytes_def load_def nth_append)
  have indep: "owned_bytes mem'' ?r = Some bs"
    if st: "store ?mem' (ptr_add (backing_store (view_buffer view)) k) new_bytes = Some mem''"
    for k new_bytes mem''
  proof (cases "backing_store (view_buffer view)")
    case (Ptr b off)
    with wf have "b < length (blocks mem)"
      by (auto simp: wf_array_buffer_def load_def split: if_splits)
    with st Ptr len show ?thesis
      by (auto simp: store_def owned_bytes_def load_def nth_append split: if_splits)
  qed (use st in \<open>simp_all add: store_def\<close>)
  show ?thesis
    using run bs owned indep len by (auto simp: nth_append)
qed

theorem to_binary_view_owned_copy_witness:
  "wf_value sample_memory (V8ArrayBufferView sample_view) \<and>
   (\<exists>mem' r.
      to_binary sample_isolate sample_memory (V8ArrayBufferView sample_view) = Inr (mem', r) \<and>
      m_size r = 3 \<and>
      owned_bytes mem' r = Some [1, 2, 3] \<and>
      (\<forall>k new_bytes mem''.
         store mem' (ptr_add (backing_store (view_buffer sample_view)) k) new_bytes = Some mem''
         \<longrightarrow> owned_bytes mem'' r = Some [1, 2, 3]))"
proof -
  have wf: "wf_value sample_memory (V8ArrayBufferView sample_view)"
    by (simp add: wf_array_buffer_def sample_view_def sample_buffer_def sample_memory_def load_def)
  have c: "view_contents sample_memory sample_view = Some [1, 2, 3]"
    by (simp add: view_contents_def sample_view_def sample_buffer_def sample_memory_def load_def)
  have n: "view_byte_length sample_view = 3"
    by (simp add: sample_view_def)
  show ?thesis
    using wf c n to_binary_view_owned_copy [OF wf, of sample_isolate] by auto
qed

text \<open>
  C6. Whenever \<open>to_binary\<close> succeeds, on any of its three paths, the pointer of the result
  is not null, also when the length is zero: for a null data pointer of length zero the
  address of a placeholder is passed on in place of the null pointer.
\<close>

theorem to_binary_non_null:
  "(to_binary isolate mem value = Inr (mem', r) \<longrightarrow> m_data r \<noteq> Nullptr) \<and>
   make_owned_binary_data mem Nullptr 0 = OwnedData_copying mem Placeholder 0 \<and>
   (\<exists>mem'' p. OwnedData_copying mem Placeholder 0 = Inr (mem'', \<lparr>m_data = p, m_size = 0\<rparr>)
      \<and> p \<noteq> Nullptr)"
proof -
  have "load mem Placeholder 0 = Some []" by (simp add: load_def)
  then have "OwnedData_copying mem Placeholder 0 =
      Inr (mem\<lparr>blocks := blocks mem @ [[]]\<rparr>, \<lparr>m_data = Ptr (length (blocks mem)) 0, m_size = 0\<rparr>)"
    by (simp add: OwnedData_copying_ok)
  then show ?thesis
    using to_binary_result_non_null [of isolate mem "value" mem' r]
    by (simp add: make_owned_binary_data_def)
qed

theorem to_binary_non_null_witness:
  "(\<exists>mem' r. to_binary sample_isolate sample_memory (V8ArrayBuffer empty_buffer) = Inr (mem', r)
      \<and> m_size r = 0 \<and> m_data r \<noteq> Nullptr) \<and>
   (\<exists>mem' r. to_binary sample_isolate sample_memory (V8ArrayBufferView empty_view) = Inr (mem', r)
      \<and> m_size r = 0 \<and> m_data r \<noteq> Nullptr) \<and>
   (\<exists>mem' r. to_binary sample_isolate sample_memory (NodeBuffer 0 Nullptr 0) = Inr (mem', r)
      \<and> m_size r = 0 \<and> m_data r \<noteq> Nullptr)"
proof -
  have a: "to_binary sample_isolate sample_memory (V8ArrayBuffer empty_buffer) =
      Inr (\<lparr>blocks = [[9, 9, 1, 2, 3, 9], []], objects = 1\<rparr>, \<lparr>m_data = Ptr 1 0, m_size = 0\<rparr>)"
    by code_simp
  have b: "to_binary sample_isolate sample_memory (V8ArrayBufferView empty_view) =
      Inr (\<lparr>blocks = [[9, 9, 1, 2, 3, 9], [], []], objects = 1\<rparr>, \<lparr>m_data = Ptr 2 0, m_size = 0\<rparr>)"
    by code_simp
  have c: "to_binary sample_isolate sample_memory (NodeBuffer 0 Nullptr 0) =
      Inr (\<lparr>blocks = [[9, 9, 1, 2, 3, 9], []], objects = 1\<rparr>, \<lparr>m_data = Ptr 1 0, m_size = 0\<rparr>)"
    by code_simp
  show ?thesis
    using a b c
      to_binary_non_null [of sample_isolate sample_memory "V8ArrayBuffer empty_buffer"
        "\<lparr>blocks = [[9, 9, 1, 2, 3, 9], []], objects = 1\<rparr>" "\<lparr>m_data = Ptr 1 0, m_size = 0\<rparr>"]
      to_binary_non_null [of sample_isolate sample_memory "V8ArrayBufferView empty_view"
        "\<lparr>blocks = [[9, 9, 1, 2, 3, 9], [], []], objects = 1\<rparr>" "\<lparr>m_data = Ptr 2 0, m_size = 0\<rparr>"]
      to_binary_non_null [of sample_isolate sample_memory "NodeBuffer 0 Nullptr 0"
        "\<lparr>blocks = [[9, 9, 1, 2, 3, 9], []], objects = 1\<rparr>" "\<lparr>m_data = Ptr 1 0, m_size = 0\<rparr>"]
    by simp
qed

text \<open>
  C7. \<open>is_binary\<close> holds of a value if and only if one of \<open>is_array_buffer\<close>,
  \<open>is_array_buffer_view\<close> and the check for a Node buffer holds of it.
\<close>

theorem is_binary_iff:
  "is_binary isolate value \<longleftrightarrow>
     is_array_buffer isolate value \<or> is_array_buffer_view isolate value
     \<or> Buffer_HasInstance value"
  by (simp add: is_binary_def)

text \<open>
  C8. For every isolate and value, \<open>to_array\<close> and \<open>to_date\<close> return what \<open>to_object\<close>
  returns and \<open>to_constructor\<close> returns what \<open>to_function\<close> returns. No shape is checked:
  \<open>to_array\<close> returns a date and \<open>to_date\<close> returns an array unchanged.
\<close>

theorem to_array_to_date_to_constructor:
  "to_array isolate value = to_object isolate value \<and>
   to_date isolate value = to_object isolate value \<and>
   to_constructor isolate value = to_function isolate value \<and>
   to_array isolate (V8Date n) = Some (V8Date n) \<and>
   to_date isolate (V8Array n) = Some (V8Array n) \<and>
   to_constructor isolate (V8Function n) = Some (V8Function n)"
  by (simp add: to_array_def to_date_def to_constructor_def to_object_def to_function_def
      Nan_To_Object_def MaybeLocal_FromMaybe_def)

text \<open>
  C9. \<open>to_boolean\<close> returns a boolean for every isolate and value and has no failure
  outcome: it is the truthiness coercion of the engine where the engine returns one, and
  \<open>False\<close> where the engine signals a failure.
\<close>

theorem to_boolean_total:
  "to_boolean isolate value =
     (case Nan_To_bool isolate value of None \<Rightarrow> False | Some b \<Rightarrow> b)"
  by (simp add: to_boolean_def FromMaybe_def)

theorem to_boolean_total_witness:
  "Nan_To_bool failing_isolate (V8Symbol 0) = None \<and>
   to_boolean failing_isolate (V8Symbol 0) = False \<and>
   to_boolean failing_isolate (V8Boolean True) = True"
proof -
  have n: "Nan_To_bool failing_isolate (V8Symbol 0) = None"
    by (simp add: Nan_To_bool_def failing_isolate_def)
  have t: "Nan_To_bool failing_isolate (V8Boolean True) = Some True"
    by (simp add: Nan_To_bool_def)
  show ?thesis
    using n t to_boolean_total [of failing_isolate "V8Symbol 0"]
      to_boolean_total [of failing_isolate "V8Boolean True"]
    by simp
qed

text \<open>
  C10. On a \<^verbatim>\<open>BinaryData\<close> of size zero \<open>from_binary\<close> copies nothing and never reads
  through the data pointer: whatever the pointer is, the null pointer included, it
  succeeds, leaves every block of memory as it was, and returns a new array buffer of
  length zero. With a size other than zero the null pointer is read and is a fault.
\<close>

theorem from_binary_zero_length:
  "(bd_size data = 0 \<longrightarrow>
      from_binary isolate mem data =
        Inr (mem\<lparr>objects := Suc (objects mem)\<rparr>,
             V8ArrayBuffer \<lparr>ab_id = objects mem, backing_store = Nullptr, ab_byte_length = 0\<rparr>)) \<and>
   from_binary isolate mem \<lparr>bd_data = Nullptr, bd_size = 0\<rparr> =
     Inr (mem\<lparr>objects := Suc (objects mem)\<rparr>,
          V8ArrayBuffer \<lparr>ab_id = objects mem, backing_store = Nullptr, ab_byte_length = 0\<rparr>) \<and>
   (bd_size data \<noteq> 0 \<and> bd_data data = Nullptr \<longrightarrow>
      from_binary isolate mem data = Inl memory_fault)"
  by (simp add: from_binary_zero from_binary_fault)

theorem from_binary_zero_length_witness:
  "from_binary sample_isolate sample_memory \<lparr>bd_data = Ptr 7 7, bd_size = 0\<rparr> =
     Inr (sample_memory\<lparr>objects := 2\<rparr>,
          V8ArrayBuffer \<lparr>ab_id = 1, backing_store = Nullptr, ab_byte_length = 0\<rparr>) \<and>
   from_binary sample_isolate sample_memory \<lparr>bd_data = Nullptr, bd_size = 3\<rparr> =
     Inl memory_fault"
  using from_binary_zero_length [of "\<lparr>bd_data = Ptr 7 7, bd_size = 0\<rparr>" sample_isolate sample_memory]
    from_binary_zero_length [of "\<lparr>bd_data = Nullptr, bd_size = 3\<rparr>" sample_isolate sample_memory]
  by (simp add: sample_memory_def)

end
